theory Spec2Isabelle
  imports Main "HOL-Library.Sublist"
begin

section \<open>Python values and strings\<close>

text \<open>
  The script \<^verbatim>\<open>wxr-to-pdf.py\<close> works on Python strings. They are modelled as
  \<^typ>\<open>string\<close>; a value that may be Python's \<^verbatim>\<open>None\<close> (the \<^verbatim>\<open>.text\<close> of an
  element without text) is a \<^typ>\<open>string option\<close>. Exceptions are values of
  \<open>error\<close>, and a call that may raise returns \<open>error + 'a\<close>.
\<close>

datatype error = AttributeError | TypeError | ValueError | UnknownTimeZoneError

text \<open>\<^verbatim>\<open>str(x)\<close> and \<^verbatim>\<open>f"{x}"\<close> for a value that is a string or \<^verbatim>\<open>None\<close>.\<close>

definition py_str :: "string option \<Rightarrow> string" where
  "py_str x = (case x of None \<Rightarrow> ''None'' | Some s \<Rightarrow> s)"

text \<open>
  \<^verbatim>\<open>str.isspace\<close> on the characters below 256: tab to carriage return, the four
  separators 0x1C to 0x1F, space, 0x85 and 0xA0.
\<close>

definition py_isspace :: "char \<Rightarrow> bool" where
  "py_isspace c =
     (let n = (of_char c :: nat)
      in (9 \<le> n \<and> n \<le> 13) \<or> (28 \<le> n \<and> n \<le> 32) \<or> n = 133 \<or> n = 160)"

text \<open>\<^verbatim>\<open>s.strip()\<close>\<close>

definition py_strip :: "string \<Rightarrow> string" where
  "py_strip s = rev (dropWhile py_isspace (rev (dropWhile py_isspace s)))"

text \<open>
  \<open>find_sub pat s\<close> splits \<open>s\<close> at the leftmost occurrence of \<open>pat\<close>: the text before
  it and the text after it. It is \<^verbatim>\<open>s.find(pat)\<close>, and also what a lazy group
  \<^verbatim>\<open>(.*?)\<close> (with DOTALL) followed by the literal \<open>pat\<close> captures.
\<close>

fun find_sub :: "string \<Rightarrow> string \<Rightarrow> (string \<times> string) option" where
  "find_sub pat [] = (if pat = [] then Some ([], []) else None)"
| "find_sub pat (c # cs) =
     (if prefix pat (c # cs) then Some ([], drop (length pat) (c # cs))
      else (case find_sub pat cs of
              None \<Rightarrow> None
            | Some (before, after) \<Rightarrow> Some (c # before, after)))"

lemma find_sub_decomp:
  "find_sub pat s = Some (b, a) \<Longrightarrow> s = b @ pat @ a"
proof (induction s arbitrary: b a)
  case Nil
  then show ?case by (simp split: if_splits)
next
  case (Cons c cs)
  show ?case
  proof (cases "prefix pat (c # cs)")
    case True
    with Cons.prems have "b = []" "a = drop (length pat) (c # cs)" by simp_all
    moreover from True obtain r where "c # cs = pat @ r" by (auto simp: prefix_def)
    ultimately show ?thesis by simp
  next
    case False
    with Cons.prems obtain b' where "find_sub pat cs = Some (b', a)" "b = c # b'"
      by (auto split: option.splits)
    with Cons.IH show ?thesis by simp
  qed
qed

lemma find_sub_length:
  "find_sub pat s = Some (b, a) \<Longrightarrow> length s = length b + length pat + length a"
  by (drule find_sub_decomp) simp

text \<open>
  \<^verbatim>\<open>s.split(sep)\<close> for a non-empty separator: cut at the leftmost occurrence and go on
  in the rest. (Python raises on an empty separator; the script only splits on
  \<^verbatim>\<open>'\n\n'\<close>, and the model returns the string whole in that case.)
\<close>

function py_split :: "string \<Rightarrow> string \<Rightarrow> string list" where
  "py_split sep s =
     (if sep = [] then [s]
      else (case find_sub sep s of
              None \<Rightarrow> [s]
            | Some (before, after) \<Rightarrow> before # py_split sep after))"
  by pat_completeness auto
termination
  by (relation "measure (\<lambda>(sep, s). length s)") (auto dest: find_sub_length)

text \<open>\<^verbatim>\<open>sep.join(parts)\<close>\<close>

fun py_join :: "string \<Rightarrow> string list \<Rightarrow> string" where
  "py_join sep [] = []"
| "py_join sep [p] = p"
| "py_join sep (p # q # ps) = p @ sep @ py_join sep (q # ps)"

section \<open>Regular-expression substitution\<close>

text \<open>
  \<^verbatim>\<open>re.sub\<close> scans the text from the left. A pattern is given by its matcher at the
  head of a text: \<open>m s = Some (r, rest)\<close> when the pattern matches a prefix of \<open>s\<close>,
  with \<open>r\<close> the replacement for that match and \<open>rest\<close> the text after it. None of the
  script's three patterns has a look-behind or an anchor, so matching at a position is
  matching at the head of the suffix. After a match the scan goes on behind it; where
  nothing matches, the character is copied. The three patterns never match the empty
  string; for a matcher that consumes nothing the scan copies one character and
  advances, as Python does after an empty match.
\<close>

function re_sub :: "(string \<Rightarrow> (string \<times> string) option) \<Rightarrow> string \<Rightarrow> string" where
  "re_sub m s =
     (case m s of
        Some (r, rest) \<Rightarrow>
          (if length rest < length s then r @ re_sub m rest
           else (case s of [] \<Rightarrow> r | c # cs \<Rightarrow> r @ c # re_sub m cs))
      | None \<Rightarrow> (case s of [] \<Rightarrow> [] | c # cs \<Rightarrow> c # re_sub m cs))"
  by pat_completeness auto
termination
  by (relation "measure (\<lambda>(m, s). length s)") auto

declare re_sub.simps [simp del]

section \<open>Paragraphs\<close>

text \<open>
  \<^verbatim>\<open>
  def convert_to_paragraphs(text):
      paragraphs = text.split('\n\n')
      paragraphs = [f'<p>{paragraph.strip()}</p>' for paragraph in paragraphs]
      return '\n'.join(paragraphs)
  \<close>
\<close>

definition convert_to_paragraphs :: "string \<Rightarrow> string" where
  "convert_to_paragraphs txt =
     (let paragraphs = py_split ''\<newline>\<newline>'' txt;
          paragraphs = map (\<lambda>paragraph. ''<p>'' @ py_strip paragraph @ ''</p>'') paragraphs
      in py_join ''\<newline>'' paragraphs)"

section \<open>Comment rendering\<close>

record comment_data =
  c_author :: "string option"
  c_content :: "string option"
  c_date :: string

text \<open>
  The pattern \<^verbatim>\<open><[^<]+?>\<close> at the head of a text: \<^verbatim>\<open><\<close>, one character that is
  not \<^verbatim>\<open><\<close>, then as few such characters as possible up to a \<^verbatim>\<open>>\<close>. The result is
  the text after the match.
\<close>

fun tag_rest :: "string \<Rightarrow> string option" where
  "tag_rest [] = None"
| "tag_rest (c # cs) =
     (if c = CHR ''>'' then Some cs else if c = CHR ''<'' then None else tag_rest cs)"

fun tag_match :: "string \<Rightarrow> string option" where
  "tag_match (a # c # cs) =
     (if a = CHR ''<'' \<and> c \<noteq> CHR ''<'' then tag_rest cs else None)"
| "tag_match _ = None"

text \<open>\<^verbatim>\<open>re.sub("<[^<]+?>", "", s)\<close>\<close>

definition strip_tags :: "string \<Rightarrow> string" where
  "strip_tags s = re_sub (\<lambda>t. map_option (\<lambda>rest. ([], rest)) (tag_match t)) s"

text \<open>\<^verbatim>\<open>re.search(r'liked this on Facebook\.', s)\<close> finds something.\<close>

definition liked_on_facebook :: "string \<Rightarrow> bool" where
  "liked_on_facebook s = (find_sub ''liked this on Facebook.'' s \<noteq> None)"

text \<open>The text one pass of the loop of \<^verbatim>\<open>preprocess_comments\<close> appends.\<close>

definition comment_html :: "comment_data \<Rightarrow> string" where
  \<open>comment_html comment =
     (if liked_on_facebook (py_str (c_content comment))
      then ''<div class="comment"><p><strong>'' @ py_str (c_author comment)
           @ ''</strong> give this a <strong>LIKE</strong> on Facebook!</p></div>''
      else ''<div class="comment"><p><strong>'' @ py_str (c_author comment)
           @ ''</strong> on '' @ c_date comment @ '':</p>''
           @ ''<p>'' @ strip_tags (py_str (c_content comment)) @ ''</p></div>'')\<close>

text \<open>\<^verbatim>\<open>str(len(comments))\<close>: the decimal digits of a natural number.\<close>

fun digits_of :: "nat \<Rightarrow> string" where
  "digits_of n =
     (if n < 10 then [char_of (48 + n)]
      else digits_of (n div 10) @ [char_of (48 + n mod 10)])"

declare digits_of.simps [simp del]

text \<open>
  \<^verbatim>\<open>
  def preprocess_comments(comments):
      html_comments = f'<h3>Comments ({str(len(comments))})</h3>'
      if len(comments):
          for comment in comments:
              ... html_comments += ...
          return html_comments
      else:
          return ""
  \<close>
\<close>

definition preprocess_comments :: "comment_data list \<Rightarrow> string" where
  "preprocess_comments comments =
     (let html_comments = ''<h3>Comments ('' @ digits_of (length comments) @ '')</h3>''
      in if length comments \<noteq> 0
         then foldl (\<lambda>html comment. html @ comment_html comment) html_comments comments
         else [])"

section \<open>Properties\<close>

lemma py_split_not_Nil: "py_split sep s \<noteq> []"
  by (subst py_split.simps) (simp split: option.splits prod.splits)

lemma py_join_Cons:
  "py_join sep (p # qs) = p @ (if qs = [] then [] else sep @ py_join sep qs)"
  by (cases qs) simp_all

lemma py_join_wrapped:
  assumes "ps \<noteq> []"
  shows "\<exists>body rest.
           py_join sep (map (\<lambda>p. ''<p>'' @ f p @ ''</p>'') ps) = ''<p>'' @ body @ ''</p>'' @ rest"
proof -
  from assms obtain p qs where ps: "ps = p # qs" by (cases ps) auto
  let ?g = "\<lambda>p. ''<p>'' @ f p @ ''</p>''"
  have "py_join sep (map ?g ps)
        = ''<p>'' @ f p @ ''</p>'' @ (if qs = [] then [] else sep @ py_join sep (map ?g qs))"
    by (simp add: ps py_join_Cons)
  then show ?thesis by blast
qed

text \<open>
  C10. Paragraph wrapping never yields an empty result: the split of any body text has at
  least one block, so the output starts with a paragraph tag pair around the first
  block; the empty body yields exactly \<^verbatim>\<open><p></p>\<close>.
\<close>

theorem convert_to_paragraphs_nonempty:
  "py_split ''\<newline>\<newline>'' txt \<noteq> []
   \<and> (\<exists>body rest. convert_to_paragraphs txt = ''<p>'' @ body @ ''</p>'' @ rest)
   \<and> convert_to_paragraphs txt \<noteq> []
   \<and> convert_to_paragraphs [] = ''<p></p>''"
proof -
  have ne: "py_split ''\<newline>\<newline>'' txt \<noteq> []" by (rule py_split_not_Nil)
  have ex: "\<exists>body rest. convert_to_paragraphs txt = ''<p>'' @ body @ ''</p>'' @ rest"
    unfolding convert_to_paragraphs_def Let_def by (rule py_join_wrapped [OF ne])
  then have "convert_to_paragraphs txt \<noteq> []" by auto
  moreover have "convert_to_paragraphs [] = ''<p></p>''"
    by (simp add: convert_to_paragraphs_def py_strip_def)
  ultimately show ?thesis using ne ex by blast
qed

end
